theory Spec2Isabelle
  imports Complex_Main
begin

section \<open>Python values read by the orchestrator\<close>

text \<open>
  A Python \<open>str\<close> is the sequence of its Unicode code points, and \<open>len\<close> counts code
  points; a string is therefore a list of code points. \<open>ascii\<close> embeds the ASCII literals
  of the source.
\<close>

type_synonym pystr = "nat list"

definition ascii :: "string \<Rightarrow> pystr" where
  "ascii s = map of_char s"

text \<open>
  What \<open>json.load\<close> returns. An object is a \<open>dict\<close>: the association list \<open>kvs\<close> stands
  for the dictionary \<open>map_of kvs\<close>, whose keys are the distinct first components. A float
  is only ever stored and passed on, so it is represented by the number it denotes.
\<close>

datatype json =
    JNull
  | JBool bool
  | JInt int
  | JFloat real
  | JStr pystr
  | JArr "json list"
  | JObj "(pystr \<times> json) list"

datatype error = AttributeError | TypeError | KeyError pystr

text \<open>\<open>d.get(k, default)\<close>: only a dict has the method.\<close>

definition dict_get :: "json \<Rightarrow> pystr \<Rightarrow> json \<Rightarrow> error + json" where
  "dict_get d k dflt =
     (case d of
        JObj kvs \<Rightarrow> Inr (case map_of kvs k of Some v \<Rightarrow> v | None \<Rightarrow> dflt)
      | _ \<Rightarrow> Inl AttributeError)"

text \<open>\<open>len(x)\<close>: defined on strings, lists and dicts; a \<open>TypeError\<close> on the rest.\<close>

definition py_len :: "json \<Rightarrow> error + int" where
  "py_len x =
     (case x of
        JStr s \<Rightarrow> Inr (int (length s))
      | JArr xs \<Rightarrow> Inr (int (length xs))
      | JObj kvs \<Rightarrow> Inr (int (length (remdups (map fst kvs))))
      | _ \<Rightarrow> Inl TypeError)"

text \<open>
  \<open>for link in x\<close>: a list yields its elements, a string its characters as one-character
  strings, a dict its keys.
\<close>

definition py_iter :: "json \<Rightarrow> error + json list" where
  "py_iter x =
     (case x of
        JArr xs \<Rightarrow> Inr xs
      | JStr s \<Rightarrow> Inr (map (\<lambda>c. JStr [c]) s)
      | JObj kvs \<Rightarrow> Inr (map JStr (remdups (map fst kvs)))
      | _ \<Rightarrow> Inl TypeError)"

text \<open>
  \<open>x[k]\<close> with a string key \<open>k\<close>: a dict looks the key up and raises \<open>KeyError\<close> when it
  is missing; every other JSON value raises \<open>TypeError\<close>.
\<close>

definition py_getitem :: "json \<Rightarrow> pystr \<Rightarrow> error + json" where
  "py_getitem x k =
     (case x of
        JObj kvs \<Rightarrow> (case map_of kvs k of Some v \<Rightarrow> Inr v | None \<Rightarrow> Inl (KeyError k))
      | _ \<Rightarrow> Inl TypeError)"

section \<open>The audit report\<close>

record overall =
  total_score :: int
  grade :: pystr
  auto_publish_eligible :: bool

record detailed =
  seo_optimization :: int
  content_quality :: int
  affiliate_integration :: int
  link_validity :: int
  user_value :: int
  compliance :: int
  conversion_potential :: int
  technical_quality :: int

record improvement =
  category :: pystr
  severity :: pystr
  description :: pystr
  impact_points :: int

record link_validation_result =
  original_url :: json
  status :: pystr
  redirect_count :: int
  response_time_ms :: int

record report_metadata =
  evaluator_version :: pystr
  processing_time_seconds :: real
  ai_model_used :: pystr
  content_length :: int

record audit_report =
  audit_id :: pystr
  timestamp :: pystr
  overall_score :: overall
  detailed_scores :: detailed
  improvements :: "improvement list"
  link_validation_results :: "link_validation_result list"
  metadata :: report_metadata

section \<open>Schema validation\<close>





section \<open>The scoring engine\<close>

text \<open>
  The wall clock is read twice, through \<open>datetime.now()\<close>: once formatted with
  \<open>strftime('%Y%m%d%H%M%S')\<close> for the audit id, once with \<open>isoformat()\<close> for the timestamp.
  Both readings are inputs of the model.
\<close>

record clock =
  strftime_now :: pystr
  isoformat_now :: pystr

definition create_audit_id :: "clock \<Rightarrow> pystr" where
  "create_audit_id clk = ascii ''audit_'' @ strftime_now clk"

definition base_score :: "int \<Rightarrow> int" where
  "base_score content_len = min 80 (content_len div 20)"

definition link_score :: "int \<Rightarrow> int" where
  "link_score asp_links_count = min 20 (asp_links_count * 5)"

definition determine_grade :: "int \<Rightarrow> pystr" where
  "determine_grade score =
     (if score \<ge> 114 then ascii ''ELITE''
      else if score \<ge> 100 then ascii ''EXCELLENT''
      else if score \<ge> 80 then ascii ''GOOD''
      else if score \<ge> 60 then ascii ''FAIR''
      else ascii ''POOR'')"

text \<open>Line 40: \<open>len(input_data.get('content', {}).get('body', ''))\<close>.\<close>

definition content_length_of :: "json \<Rightarrow> error + int" where
  "content_length_of input_data =
     (case dict_get input_data (ascii ''content'') (JObj []) of
        Inl e \<Rightarrow> Inl e
      | Inr content \<Rightarrow>
          (case dict_get content (ascii ''body'') (JStr []) of
             Inl e \<Rightarrow> Inl e
           | Inr body \<Rightarrow> py_len body))"

text \<open>Line 41: \<open>len(input_data.get('asp_links', []))\<close>.\<close>

definition asp_links_count_of :: "json \<Rightarrow> error + int" where
  "asp_links_count_of input_data =
     (case dict_get input_data (ascii ''asp_links'') (JArr []) of
        Inl e \<Rightarrow> Inl e
      | Inr asp_links \<Rightarrow> py_len asp_links)"

text \<open>
  The list comprehension of lines 86 to 93: one entry per link, in order; the first link
  on which \<open>link["url"]\<close> raises ends the comprehension with that exception.
\<close>

fun link_entries :: "json list \<Rightarrow> error + link_validation_result list" where
  "link_entries [] = Inr []"
| "link_entries (link # rest) =
     (case py_getitem link (ascii ''url'') of
        Inl e \<Rightarrow> Inl e
      | Inr url \<Rightarrow>
          (case link_entries rest of
             Inl e \<Rightarrow> Inl e
           | Inr entries \<Rightarrow>
               Inr (\<lparr>original_url = url, status = ascii ''valid'',
                     redirect_count = 0, response_time_ms = 250\<rparr> # entries)))"

definition link_validation_results_of :: "json \<Rightarrow> error + link_validation_result list" where
  "link_validation_results_of input_data =
     (case dict_get input_data (ascii ''asp_links'') (JArr []) of
        Inl e \<Rightarrow> Inl e
      | Inr asp_links \<Rightarrow>
          (case py_iter asp_links of
             Inl e \<Rightarrow> Inl e
           | Inr links \<Rightarrow> link_entries links))"

definition mock_evaluate_content :: "clock \<Rightarrow> json \<Rightarrow> error + audit_report" where
  "mock_evaluate_content clk input_data =
     (case content_length_of input_data of
        Inl e \<Rightarrow> Inl e
      | Inr content_len \<Rightarrow>
     (case asp_links_count_of input_data of
        Inl e \<Rightarrow> Inl e
      | Inr asp_links_count \<Rightarrow>
     (let score = base_score content_len + link_score asp_links_count
      in case link_validation_results_of input_data of
        Inl e \<Rightarrow> Inl e
      | Inr results \<Rightarrow>
          Inr \<lparr>audit_id = create_audit_id clk,
               timestamp = isoformat_now clk,
               overall_score =
                 \<lparr>total_score = score,
                  grade = determine_grade score,
                  auto_publish_eligible = (score \<ge> 114)\<rparr>,
               detailed_scores =
                 \<lparr>seo_optimization = min 15 (score div 8),
                  content_quality = min 20 (content_len div 50),
                  affiliate_integration = min 20 (asp_links_count * 4),
                  link_validity = min 15 (asp_links_count * 3),
                  user_value = min 20 (content_len div 40),
                  compliance = 8,
                  conversion_potential = min 15 (asp_links_count * 3),
                  technical_quality = 4\<rparr>,
               improvements =
                 [\<lparr>category = ascii ''seo'',
                   severity = ascii ''minor'',
                   description = ascii ''Consider adding more targeted keywords'',
                   impact_points = 3\<rparr>],
               link_validation_results = results,
               metadata =
                 \<lparr>evaluator_version = ascii ''1.0.0'',
                  processing_time_seconds = 1.2,
                  ai_model_used = ascii ''mock-evaluator'',
                  content_length = content_len\<rparr>\<rparr>)))"

section \<open>Documents and reference data\<close>

text \<open>
  The part of the input data model that the engine reads: \<open>content\<close> is an object whose
  \<open>body\<close> is a string, and \<open>asp_links\<close> is an array of objects that each carry a \<open>url\<close>.
\<close>

definition has_url :: "json \<Rightarrow> bool" where
  "has_url link =
     (case link of JObj entries \<Rightarrow> map_of entries (ascii ''url'') \<noteq> None | _ \<Rightarrow> False)"

definition document ::
  "(pystr \<times> json) list \<Rightarrow> (pystr \<times> json) list \<Rightarrow> pystr \<Rightarrow> json list \<Rightarrow> bool" where
  "document kvs content body links \<longleftrightarrow>
     map_of kvs (ascii ''content'') = Some (JObj content) \<and>
     map_of content (ascii ''body'') = Some (JStr body) \<and>
     map_of kvs (ascii ''asp_links'') = Some (JArr links) \<and>
     list_all has_url links"

text \<open>
  Objects in which \<open>content\<close> (or its \<open>body\<close>) and \<open>asp_links\<close> may be missing, and are as
  above when present.
\<close>

definition content_or_absent :: "(pystr \<times> json) list \<Rightarrow> bool" where
  "content_or_absent kvs =
     (case map_of kvs (ascii ''content'') of
        None \<Rightarrow> True
      | Some (JObj c) \<Rightarrow>
          (case map_of c (ascii ''body'') of
             None \<Rightarrow> True
           | Some (JStr b) \<Rightarrow> True
           | Some _ \<Rightarrow> False)
      | Some _ \<Rightarrow> False)"

definition asp_links_or_absent :: "(pystr \<times> json) list \<Rightarrow> bool" where
  "asp_links_or_absent kvs =
     (case map_of kvs (ascii ''asp_links'') of
        None \<Rightarrow> True
      | Some (JArr links) \<Rightarrow> list_all has_url links
      | Some _ \<Rightarrow> False)"

text \<open>
  The grade table as the specification words it: thresholds listed highest first, the
  first threshold that the total reaches wins, and \<open>POOR\<close> when none does.
\<close>

definition grade_thresholds :: "(int \<times> pystr) list" where
  "grade_thresholds =
     [(114, ascii ''ELITE''), (100, ascii ''EXCELLENT''), (80, ascii ''GOOD''),
      (60, ascii ''FAIR'')]"

definition grade_by_table :: "int \<Rightarrow> pystr" where
  "grade_by_table t =
     (case find (\<lambda>(threshold, g). t \<ge> threshold) grade_thresholds of
        Some (threshold, g) \<Rightarrow> g
      | None \<Rightarrow> ascii ''POOR'')"

subsection \<open>Sample inputs\<close>

definition clock0 :: clock where
  "clock0 = \<lparr>strftime_now = ascii ''20240101120000'',
             isoformat_now = ascii ''2024-01-01T12:00:00.000001''\<rparr>"

definition sample_meta :: json where
  "sample_meta =
     JObj [(ascii ''target_keyword'', JStr (ascii ''k'')),
           (ascii ''product_category'', JStr (ascii ''c'')),
           (ascii ''asp_provider'', JStr (ascii ''a''))]"

definition link_to :: "string \<Rightarrow> json" where
  "link_to u =
     JObj [(ascii ''url'', JStr (ascii u)), (ascii ''product_name'', JStr (ascii ''p'')),
           (ascii ''priority'', JInt 1)]"

text \<open>A body of 2000 characters and one link.\<close>

definition sample_links :: "json list" where
  "sample_links = [link_to ''u'']"

definition sample_content :: "(pystr \<times> json) list" where
  "sample_content =
     [(ascii ''title'', JStr (ascii ''T'')), (ascii ''body'', JStr (replicate 2000 120)),
      (ascii ''meta'', sample_meta)]"

definition sample_document :: "(pystr \<times> json) list" where
  "sample_document =
     [(ascii ''content'', JObj sample_content), (ascii ''asp_links'', JArr sample_links)]"

definition static_improvements :: "improvement list" where
  "static_improvements =
     [\<lparr>category = ascii ''seo'', severity = ascii ''minor'',
       description = ascii ''Consider adding more targeted keywords'',
       impact_points = 3\<rparr>]"

definition valid_entry :: "string \<Rightarrow> link_validation_result" where
  "valid_entry u =
     \<lparr>original_url = JStr (ascii u), status = ascii ''valid'',
      redirect_count = 0, response_time_ms = 250\<rparr>"

definition sample_report :: audit_report where
  "sample_report =
     \<lparr>audit_id = ascii ''audit_20240101120000'',
      timestamp = ascii ''2024-01-01T12:00:00.000001'',
      overall_score =
        \<lparr>total_score = 85, grade = ascii ''GOOD'', auto_publish_eligible = False\<rparr>,
      detailed_scores =
        \<lparr>seo_optimization = 10, content_quality = 20, affiliate_integration = 4,
         link_validity = 3, user_value = 20, compliance = 8, conversion_potential = 3,
         technical_quality = 4\<rparr>,
      improvements = static_improvements,
      link_validation_results = [valid_entry ''u''],
      metadata =
        \<lparr>evaluator_version = ascii ''1.0.0'', processing_time_seconds = 1.2,
         ai_model_used = ascii ''mock-evaluator'', content_length = 2000\<rparr>\<rparr>"

text \<open>The same document with the thirteen-character body \<open>Short content\<close>.\<close>

definition short_content :: "(pystr \<times> json) list" where
  "short_content =
     [(ascii ''title'', JStr (ascii ''T'')), (ascii ''body'', JStr (ascii ''Short content'')),
      (ascii ''meta'', sample_meta)]"

definition short_document :: "(pystr \<times> json) list" where
  "short_document =
     [(ascii ''content'', JObj short_content), (ascii ''asp_links'', JArr sample_links)]"

text \<open>A body of 1600 characters and four links: both caps are reached.\<close>

definition full_links :: "json list" where
  "full_links = [link_to ''u1'', link_to ''u2'', link_to ''u3'', link_to ''u4'']"

definition full_content :: "(pystr \<times> json) list" where
  "full_content =
     [(ascii ''title'', JStr (ascii ''T'')), (ascii ''body'', JStr (replicate 1600 120)),
      (ascii ''meta'', sample_meta)]"

definition full_document :: "(pystr \<times> json) list" where
  "full_document =
     [(ascii ''content'', JObj full_content), (ascii ''asp_links'', JArr full_links)]"

definition full_report :: audit_report where
  "full_report =
     \<lparr>audit_id = ascii ''audit_20240101120000'',
      timestamp = ascii ''2024-01-01T12:00:00.000001'',
      overall_score =
        \<lparr>total_score = 100, grade = ascii ''EXCELLENT'', auto_publish_eligible = False\<rparr>,
      detailed_scores =
        \<lparr>seo_optimization = 12, content_quality = 20, affiliate_integration = 16,
         link_validity = 12, user_value = 20, compliance = 8, conversion_potential = 12,
         technical_quality = 4\<rparr>,
      improvements = static_improvements,
      link_validation_results =
        [valid_entry ''u1'', valid_entry ''u2'', valid_entry ''u3'', valid_entry ''u4''],
      metadata =
        \<lparr>evaluator_version = ascii ''1.0.0'', processing_time_seconds = 1.2,
         ai_model_used = ascii ''mock-evaluator'', content_length = 1600\<rparr>\<rparr>"

text \<open>A document whose \<open>content\<close> has no \<open>body\<close>, with no links.\<close>

definition bodyless_content :: "(pystr \<times> json) list" where
  "bodyless_content = [(ascii ''title'', JStr (ascii ''T'')), (ascii ''meta'', sample_meta)]"

definition bodyless_document :: "(pystr \<times> json) list" where
  "bodyless_document =
     [(ascii ''content'', JObj bodyless_content), (ascii ''asp_links'', JArr [])]"

text \<open>An object without \<open>content\<close> whose only link has no \<open>url\<close>.\<close>

definition urlless_document :: "(pystr \<times> json) list" where
  "urlless_document = [(ascii ''asp_links'', JArr [JObj []])]"




section \<open>Properties of the engine\<close>

lemma py_len_nonneg: "py_len x = Inr n \<Longrightarrow> 0 \<le> n"
  by (auto simp: py_len_def split: json.splits)

lemma content_length_of_nonneg: "content_length_of d = Inr n \<Longrightarrow> 0 \<le> n"
  by (auto simp: content_length_of_def split: sum.splits dest: py_len_nonneg)

lemma asp_links_count_of_nonneg: "asp_links_count_of d = Inr n \<Longrightarrow> 0 \<le> n"
  by (auto simp: asp_links_count_of_def split: sum.splits dest: py_len_nonneg)

lemma has_url_getitem: "has_url link \<Longrightarrow> \<exists>u. py_getitem link (ascii ''url'') = Inr u"
  by (auto simp: has_url_def py_getitem_def split: json.splits)

lemma link_entries_total: "list_all has_url links \<Longrightarrow> \<exists>es. link_entries links = Inr es"
proof (induction links)
  case Nil
  show ?case by simp
next
  case (Cons l ls)
  from Cons.prems obtain u where "py_getitem l (ascii ''url'') = Inr u"
    using has_url_getitem by auto
  moreover from Cons obtain es where "link_entries ls = Inr es" by auto
  ultimately show ?case by simp
qed

lemma link_entries_length: "link_entries links = Inr es \<Longrightarrow> length es = length links"
  by (induction links arbitrary: es) (auto split: sum.splits)

lemma getitem_url:
  "py_getitem link (ascii ''url'') = Inr u \<Longrightarrow>
     \<exists>entries. link = JObj entries \<and> map_of entries (ascii ''url'') = Some u"
  by (auto simp: py_getitem_def split: json.splits option.splits)

lemma link_entries_nth:
  "link_entries links = Inr es \<Longrightarrow> i < length links \<Longrightarrow>
     (\<exists>entries. links ! i = JObj entries \<and>
        map_of entries (ascii ''url'') = Some (original_url (es ! i))) \<and>
     status (es ! i) = ascii ''valid'' \<and> redirect_count (es ! i) = 0 \<and>
     response_time_ms (es ! i) = 250"
proof (induction links arbitrary: es i)
  case Nil
  then show ?case by simp
next
  case (Cons l ls)
  from Cons.prems(1) obtain u es' where
    u: "py_getitem l (ascii ''url'') = Inr u" and es': "link_entries ls = Inr es'"
    and es: "es = \<lparr>original_url = u, status = ascii ''valid'',
                   redirect_count = 0, response_time_ms = 250\<rparr> # es'"
    by (auto split: sum.splits)
  show ?case
  proof (cases i)
    case 0
    with es getitem_url [OF u] show ?thesis by simp
  next
    case (Suc j)
    with Cons.prems(2) have "j < length ls" by simp
    from Cons.IH [OF es' this] Suc es show ?thesis by simp
  qed
qed

lemma document_content_length:
  "document kvs c body links \<Longrightarrow> content_length_of (JObj kvs) = Inr (int (length body))"
  by (simp add: document_def content_length_of_def dict_get_def py_len_def)

lemma document_asp_links_count:
  "document kvs c body links \<Longrightarrow> asp_links_count_of (JObj kvs) = Inr (int (length links))"
  by (simp add: document_def asp_links_count_of_def dict_get_def py_len_def)

lemma document_link_results:
  "document kvs c body links \<Longrightarrow> link_validation_results_of (JObj kvs) = link_entries links"
  by (simp add: document_def link_validation_results_of_def dict_get_def py_iter_def)

lemma document_returns:
  assumes "document kvs c body links"
  shows "\<exists>r. mock_evaluate_content clk (JObj kvs) = Inr r"
proof -
  from assms have "list_all has_url links" by (simp add: document_def)
  then obtain es where "link_entries links = Inr es" using link_entries_total by blast
  then show ?thesis
    using assms
    by (simp add: mock_evaluate_content_def document_content_length document_asp_links_count
        document_link_results Let_def)
qed

lemma report_fields:
  assumes "mock_evaluate_content clk d = Inr r"
  shows "\<exists>n m. content_length_of d = Inr n \<and> asp_links_count_of d = Inr m \<and>
           link_validation_results_of d = Inr (link_validation_results r) \<and>
           total_score (overall_score r) = base_score n + link_score m \<and>
           grade (overall_score r) = determine_grade (base_score n + link_score m) \<and>
           auto_publish_eligible (overall_score r) = (114 \<le> base_score n + link_score m) \<and>
           content_length (metadata r) = n \<and>
           detailed_scores r =
             \<lparr>seo_optimization = min 15 ((base_score n + link_score m) div 8),
              content_quality = min 20 (n div 50),
              affiliate_integration = min 20 (m * 4),
              link_validity = min 15 (m * 3),
              user_value = min 20 (n div 40),
              compliance = 8,
              conversion_potential = min 15 (m * 3),
              technical_quality = 4\<rparr>"
  using assms by (auto simp: mock_evaluate_content_def Let_def split: sum.splits)

lemma ascii_keys_distinct:
  "ascii ''content'' \<noteq> ascii ''asp_links''" "ascii ''asp_links'' \<noteq> ascii ''content''"
  by (simp_all add: ascii_def)

lemma grade_names_distinct:
  "ascii ''EXCELLENT'' \<noteq> ascii ''ELITE''" "ascii ''GOOD'' \<noteq> ascii ''ELITE''"
  "ascii ''FAIR'' \<noteq> ascii ''ELITE''" "ascii ''POOR'' \<noteq> ascii ''ELITE''"
  by (simp_all add: ascii_def)

lemma determine_grade_elite: "(determine_grade t = ascii ''ELITE'') = (114 \<le> t)"
  by (simp add: determine_grade_def grade_names_distinct)

lemma score_bounds:
  assumes "0 \<le> n" "0 \<le> m"
  shows "0 \<le> base_score n + link_score m" "base_score n + link_score m \<le> 100"
  using assms by (simp_all add: base_score_def link_score_def)

lemma report_total_bounds:
  assumes "mock_evaluate_content clk d = Inr r"
  shows "0 \<le> total_score (overall_score r)" "total_score (overall_score r) \<le> 100"
proof -
  from report_fields [OF assms] obtain n m where
    nm: "content_length_of d = Inr n" "asp_links_count_of d = Inr m"
      "total_score (overall_score r) = base_score n + link_score m"
    by blast
  have "0 \<le> n" "0 \<le> m"
    using nm content_length_of_nonneg asp_links_count_of_nonneg by blast+
  then show "0 \<le> total_score (overall_score r)" "total_score (overall_score r) \<le> 100"
    using score_bounds nm(3) by simp_all
qed

lemma determine_grade_table: "determine_grade t = grade_by_table t"
  by (simp add: determine_grade_def grade_by_table_def grade_thresholds_def)

lemma content_or_absent_length:
  assumes "content_or_absent kvs"
  shows "\<exists>n. content_length_of (JObj kvs) = Inr n \<and>
           (map_of kvs (ascii ''content'') = None \<longrightarrow>
              n = 0 \<and>
              content_length_of (JObj ((ascii ''content'', JObj []) # kvs)) = Inr n)"
proof (cases "map_of kvs (ascii ''content'')")
  case None
  then show ?thesis
    by (simp add: content_length_of_def dict_get_def py_len_def)
next
  case (Some v)
  with assms obtain c where c: "v = JObj c"
    by (auto simp: content_or_absent_def split: json.splits)
  show ?thesis
  proof (cases "map_of c (ascii ''body'')")
    case None
    with Some c show ?thesis
      by (simp add: content_length_of_def dict_get_def py_len_def)
  next
    case (Some b)
    with assms \<open>map_of kvs (ascii ''content'') = Some v\<close> c obtain s where "b = JStr s"
      by (auto simp: content_or_absent_def split: json.splits)
    with Some \<open>map_of kvs (ascii ''content'') = Some v\<close> c show ?thesis
      by (simp add: content_length_of_def dict_get_def py_len_def)
  qed
qed

lemma asp_links_or_absent_count:
  assumes "asp_links_or_absent kvs"
  shows "\<exists>m. asp_links_count_of (JObj kvs) = Inr m \<and>
           (map_of kvs (ascii ''asp_links'') = None \<longrightarrow>
              m = 0 \<and> asp_links_count_of (JObj ((ascii ''asp_links'', JArr []) # kvs)) = Inr m)"
proof (cases "map_of kvs (ascii ''asp_links'')")
  case None
  then show ?thesis
    by (simp add: asp_links_count_of_def dict_get_def py_len_def)
next
  case (Some v)
  with assms obtain links where "v = JArr links"
    by (auto simp: asp_links_or_absent_def split: json.splits)
  with Some show ?thesis
    by (simp add: asp_links_count_of_def dict_get_def py_len_def)
qed

lemma asp_links_or_absent_results:
  assumes "asp_links_or_absent kvs"
  shows "\<exists>es. link_validation_results_of (JObj kvs) = Inr es \<and>
           (map_of kvs (ascii ''asp_links'') = None \<longrightarrow>
              es = [] \<and>
              link_validation_results_of (JObj ((ascii ''asp_links'', JArr []) # kvs)) = Inr es)"
proof (cases "map_of kvs (ascii ''asp_links'')")
  case None
  then show ?thesis
    by (simp add: link_validation_results_of_def dict_get_def py_iter_def)
next
  case (Some v)
  with assms obtain links where l: "v = JArr links" "list_all has_url links"
    by (auto simp: asp_links_or_absent_def split: json.splits)
  from link_entries_total [OF l(2)] obtain es where "link_entries links = Inr es" by blast
  with Some l(1) show ?thesis
    by (simp add: link_validation_results_of_def dict_get_def py_iter_def)
qed

subsection \<open>The sample inputs evaluated\<close>

lemmas sample_defs =
  sample_document_def sample_content_def sample_links_def sample_meta_def link_to_def
  short_document_def short_content_def full_document_def full_content_def full_links_def
  bodyless_document_def bodyless_content_def urlless_document_def

lemmas engine_defs =
  mock_evaluate_content_def content_length_of_def asp_links_count_of_def
  link_validation_results_of_def dict_get_def py_len_def py_iter_def py_getitem_def
  base_score_def link_score_def determine_grade_def create_audit_id_def

lemma sample_is_document:
  "document sample_document sample_content (replicate 2000 120) sample_links"
  by (simp add: document_def sample_defs has_url_def ascii_def)

lemma short_is_document:
  "document short_document short_content (ascii ''Short content'') sample_links"
  by (simp add: document_def sample_defs has_url_def ascii_def)

lemma full_is_document:
  "document full_document full_content (replicate 1600 120) full_links"
  by (simp add: document_def sample_defs has_url_def ascii_def)

lemma sample_evaluates: "mock_evaluate_content clock0 (JObj sample_document) = Inr sample_report"
  by (simp add: engine_defs sample_defs sample_report_def static_improvements_def
      valid_entry_def clock0_def ascii_def)

lemma full_evaluates: "mock_evaluate_content clock0 (JObj full_document) = Inr full_report"
  by (simp add: engine_defs sample_defs full_report_def static_improvements_def
      valid_entry_def clock0_def ascii_def)

section \<open>Claims\<close>

text \<open>
  C1. For every input document the engine returns a report whose total is
  \<open>min(80, content_length // 20) + min(20, link_count * 5)\<close>, where \<open>content_length\<close> is the
  length of \<open>content.body\<close> and \<open>link_count\<close> the number of \<open>asp_links\<close> entries; the total
  is an integer between 0 and 100.
\<close>

theorem total_score_formula:
  assumes "document kvs c body links"
  shows "\<exists>r. mock_evaluate_content clk (JObj kvs) = Inr r \<and>
           total_score (overall_score r) =
             min 80 (int (length body) div 20) + min 20 (int (length links) * 5) \<and>
           0 \<le> total_score (overall_score r) \<and> total_score (overall_score r) \<le> 100"
proof -
  from document_returns [OF assms] obtain r where r: "mock_evaluate_content clk (JObj kvs) = Inr r"
    by blast
  from report_fields [OF r] have
    "total_score (overall_score r) = base_score (int (length body)) + link_score (int (length links))"
    by (simp add: document_content_length [OF assms] document_asp_links_count [OF assms])
  then have t: "total_score (overall_score r) =
             min 80 (int (length body) div 20) + min 20 (int (length links) * 5)"
    by (simp add: base_score_def link_score_def)
  have "0 \<le> int (length body) div 20" by simp
  with t have "0 \<le> total_score (overall_score r)" "total_score (overall_score r) \<le> 100"
    by simp_all
  with r t show ?thesis by blast
qed

theorem total_score_formula_witness:
  "document sample_document sample_content (replicate 2000 120) sample_links \<and>
   (\<exists>r. mock_evaluate_content clock0 (JObj sample_document) = Inr r \<and>
      total_score (overall_score r) = 85)"
  using total_score_formula [OF sample_is_document, of clock0] sample_is_document
  by (auto simp: sample_links_def)

text \<open>
  C2. The grade of every report is the one the threshold table gives for its total,
  thresholds tried highest first: at least 114 is \<open>ELITE\<close>, at least 100 \<open>EXCELLENT\<close>, at
  least 80 \<open>GOOD\<close>, at least 60 \<open>FAIR\<close>, anything else \<open>POOR\<close>. The grading rule of the
  engine agrees with the table on every integer, and at the boundaries 114, 113, 100, 99,
  80, 79, 60 and 59 it gives \<open>ELITE\<close>, \<open>EXCELLENT\<close>, \<open>EXCELLENT\<close>, \<open>GOOD\<close>, \<open>GOOD\<close>, \<open>FAIR\<close>,
  \<open>FAIR\<close> and \<open>POOR\<close>.
\<close>

theorem grade_matches_threshold_table:
  "(mock_evaluate_content clk d = Inr r \<longrightarrow>
      grade (overall_score r) = grade_by_table (total_score (overall_score r))) \<and>
   determine_grade t = grade_by_table t \<and>
   determine_grade 114 = ascii ''ELITE'' \<and>
   determine_grade 113 = ascii ''EXCELLENT'' \<and>
   determine_grade 100 = ascii ''EXCELLENT'' \<and>
   determine_grade 99 = ascii ''GOOD'' \<and>
   determine_grade 80 = ascii ''GOOD'' \<and>
   determine_grade 79 = ascii ''FAIR'' \<and>
   determine_grade 60 = ascii ''FAIR'' \<and>
   determine_grade 59 = ascii ''POOR''"
proof -
  have "grade (overall_score r) = grade_by_table (total_score (overall_score r))"
    if "mock_evaluate_content clk d = Inr r"
    using report_fields [OF that] by (auto simp: determine_grade_table)
  moreover have "determine_grade 114 = ascii ''ELITE''" "determine_grade 113 = ascii ''EXCELLENT''"
    "determine_grade 100 = ascii ''EXCELLENT''" "determine_grade 99 = ascii ''GOOD''"
    "determine_grade 80 = ascii ''GOOD''" "determine_grade 79 = ascii ''FAIR''"
    "determine_grade 60 = ascii ''FAIR''" "determine_grade 59 = ascii ''POOR''"
    by (simp_all add: determine_grade_def)
  ultimately show ?thesis using determine_grade_table by blast
qed

theorem grade_matches_threshold_table_witness:
  "mock_evaluate_content clock0 (JObj sample_document) = Inr sample_report \<and>
   grade (overall_score sample_report) = grade_by_table (total_score (overall_score sample_report)) \<and>
   grade (overall_score sample_report) = ascii ''GOOD''"
  using grade_matches_threshold_table [of clock0 "JObj sample_document" sample_report 85]
    sample_evaluates
  by (simp add: sample_report_def)

text \<open>
  C3. In every report, \<open>auto_publish_eligible\<close> is true exactly when the grade is \<open>ELITE\<close>,
  and the grade is \<open>ELITE\<close> exactly when the total is at least 114; a report graded
  \<open>EXCELLENT\<close>, \<open>GOOD\<close>, \<open>FAIR\<close> or \<open>POOR\<close> is not eligible. The grading rule itself gives
  \<open>ELITE\<close> exactly from 114 on.
\<close>

theorem auto_publish_iff_elite:
  "(mock_evaluate_content clk d = Inr r \<longrightarrow>
      (auto_publish_eligible (overall_score r) \<longleftrightarrow> grade (overall_score r) = ascii ''ELITE'') \<and>
      (grade (overall_score r) = ascii ''ELITE'' \<longleftrightarrow> 114 \<le> total_score (overall_score r)) \<and>
      (grade (overall_score r) \<in> {ascii ''EXCELLENT'', ascii ''GOOD'', ascii ''FAIR'', ascii ''POOR''}
         \<longrightarrow> \<not> auto_publish_eligible (overall_score r))) \<and>
   (determine_grade t = ascii ''ELITE'' \<longleftrightarrow> 114 \<le> t)"
proof -
  have "(auto_publish_eligible (overall_score r) \<longleftrightarrow> grade (overall_score r) = ascii ''ELITE'') \<and>
      (grade (overall_score r) = ascii ''ELITE'' \<longleftrightarrow> 114 \<le> total_score (overall_score r)) \<and>
      (grade (overall_score r) \<in> {ascii ''EXCELLENT'', ascii ''GOOD'', ascii ''FAIR'', ascii ''POOR''}
         \<longrightarrow> \<not> auto_publish_eligible (overall_score r))"
    if "mock_evaluate_content clk d = Inr r"
  proof -
    from report_fields [OF that] obtain s where
      s: "total_score (overall_score r) = s" "grade (overall_score r) = determine_grade s"
        "auto_publish_eligible (overall_score r) = (114 \<le> s)"
      by auto
    have g: "(grade (overall_score r) = ascii ''ELITE'') = (114 \<le> s)"
      using s(2) by (simp add: determine_grade_elite)
    have "grade (overall_score r) \<noteq> ascii ''ELITE''"
      if "grade (overall_score r) \<in> {ascii ''EXCELLENT'', ascii ''GOOD'', ascii ''FAIR'', ascii ''POOR''}"
      using that grade_names_distinct by auto
    then show ?thesis
      using s(1,3) g by auto
  qed
  then show ?thesis using determine_grade_elite by blast
qed

theorem auto_publish_iff_elite_witness:
  "mock_evaluate_content clock0 (JObj full_document) = Inr full_report \<and>
   grade (overall_score full_report) = ascii ''EXCELLENT'' \<and>
   \<not> auto_publish_eligible (overall_score full_report) \<and>
   \<not> 114 \<le> total_score (overall_score full_report)"
  using auto_publish_iff_elite [of clock0 "JObj full_document" full_report 100] full_evaluates
  by (simp add: full_report_def)

text \<open>
  C4, amended. The total of a report never exceeds 100, so it never reaches the \<open>ELITE\<close>
  threshold of 114: no report is graded \<open>ELITE\<close> and none is eligible for automatic
  publication. (The total does reach 100, see below.)
\<close>

theorem total_never_elite:
  assumes "mock_evaluate_content clk d = Inr r"
  shows "total_score (overall_score r) \<le> 100 \<and> total_score (overall_score r) < 114 \<and>
         grade (overall_score r) \<noteq> ascii ''ELITE'' \<and>
         \<not> auto_publish_eligible (overall_score r)"
proof -
  from report_fields [OF assms] obtain s where
    s: "total_score (overall_score r) = s" "grade (overall_score r) = determine_grade s"
      "auto_publish_eligible (overall_score r) = (114 \<le> s)"
    by auto
  from report_total_bounds(2) [OF assms] s(1) have "s \<le> 100" by simp
  then show ?thesis using s by (simp add: determine_grade_elite)
qed

theorem total_never_elite_witness:
  "mock_evaluate_content clock0 (JObj sample_document) = Inr sample_report \<and>
   total_score (overall_score sample_report) \<le> 100 \<and>
   grade (overall_score sample_report) \<noteq> ascii ''ELITE'' \<and>
   \<not> auto_publish_eligible (overall_score sample_report)"
  using total_never_elite [of clock0 "JObj sample_document" sample_report] sample_evaluates
  by simp

text \<open>
  C4 as stated also says that the total never reaches the 100 boundary. A body of 1600
  characters with four links scores 80 + 20 = 100 and is graded \<open>EXCELLENT\<close>.
\<close>

theorem total_reaches_100:
  "mock_evaluate_content clock0 (JObj full_document) = Inr full_report \<and>
   total_score (overall_score full_report) = 100 \<and>
   grade (overall_score full_report) = ascii ''EXCELLENT''"
  using full_evaluates by (simp add: full_report_def)




text \<open>
  C6. For every input document the report has one \<open>link_validation_results\<close> entry per
  \<open>asp_links\<close> entry, in the same order (none when there are no links): entry \<open>i\<close> has as
  \<open>original_url\<close> the value stored under \<open>url\<close> in link \<open>i\<close>, status \<open>valid\<close>,
  \<open>redirect_count\<close> 0 and \<open>response_time_ms\<close> 250.
\<close>

theorem link_results_mirror_links:
  assumes "document kvs c body links"
  shows "\<exists>r. mock_evaluate_content clk (JObj kvs) = Inr r \<and>
           length (link_validation_results r) = length links \<and>
           (links = [] \<longrightarrow> link_validation_results r = []) \<and>
           (\<forall>i < length links.
              (\<exists>entries. links ! i = JObj entries \<and>
                 map_of entries (ascii ''url'') =
                   Some (original_url (link_validation_results r ! i))) \<and>
              status (link_validation_results r ! i) = ascii ''valid'' \<and>
              redirect_count (link_validation_results r ! i) = 0 \<and>
              response_time_ms (link_validation_results r ! i) = 250)"
proof -
  from document_returns [OF assms] obtain r where r: "mock_evaluate_content clk (JObj kvs) = Inr r"
    by blast
  from report_fields [OF r] have e: "link_entries links = Inr (link_validation_results r)"
    by (auto simp: document_link_results [OF assms])
  have n: "length (link_validation_results r) = length links"
    using link_entries_length [OF e] .
  then have z: "links = [] \<longrightarrow> link_validation_results r = []" by auto
  have "\<forall>i < length links.
      (\<exists>entries. links ! i = JObj entries \<and>
         map_of entries (ascii ''url'') = Some (original_url (link_validation_results r ! i))) \<and>
      status (link_validation_results r ! i) = ascii ''valid'' \<and>
      redirect_count (link_validation_results r ! i) = 0 \<and>
      response_time_ms (link_validation_results r ! i) = 250"
    using link_entries_nth [OF e] by simp
  with r n z show ?thesis by (intro exI [of _ r]) simp
qed

theorem link_results_mirror_links_witness:
  "document full_document full_content (replicate 1600 120) full_links \<and>
   (\<exists>r. mock_evaluate_content clock0 (JObj full_document) = Inr r \<and>
      length (link_validation_results r) = length full_links \<and>
      (full_links = [] \<longrightarrow> link_validation_results r = []) \<and>
      (\<forall>i < length full_links.
         (\<exists>entries. full_links ! i = JObj entries \<and>
            map_of entries (ascii ''url'') =
              Some (original_url (link_validation_results r ! i))) \<and>
         status (link_validation_results r ! i) = ascii ''valid'' \<and>
         redirect_count (link_validation_results r ! i) = 0 \<and>
         response_time_ms (link_validation_results r ! i) = 250)) \<and>
   map original_url (link_validation_results full_report) =
     [JStr (ascii ''u1''), JStr (ascii ''u2''), JStr (ascii ''u3''), JStr (ascii ''u4'')]"
proof -
  have "map original_url (link_validation_results full_report) =
     [JStr (ascii ''u1''), JStr (ascii ''u2''), JStr (ascii ''u3''), JStr (ascii ''u4'')]"
    by (simp add: full_report_def valid_entry_def)
  with full_is_document link_results_mirror_links [OF full_is_document, of clock0]
  show ?thesis by (intro conjI)
qed

text \<open>
  C7. For every input document whose \<open>content\<close> has no \<open>body\<close>, the engine returns a
  report, the same one as for the empty body: \<open>content_length\<close> is 0, the content
  contributes nothing to the total, which is the link score alone, and the grade is \<open>POOR\<close>;
  with no links the total is 0.
\<close>

theorem missing_body_scores_as_empty:
  assumes "map_of kvs (ascii ''content'') = Some (JObj c)"
    and "map_of c (ascii ''body'') = None"
    and "map_of kvs (ascii ''asp_links'') = Some (JArr links)"
    and "list_all has_url links"
  shows "\<exists>r. mock_evaluate_content clk (JObj kvs) = Inr r \<and>
           mock_evaluate_content clk
             (JObj ((ascii ''content'', JObj ((ascii ''body'', JStr []) # c)) # kvs)) = Inr r \<and>
           content_length (metadata r) = 0 \<and>
           total_score (overall_score r) = min 20 (int (length links) * 5) \<and>
           grade (overall_score r) = ascii ''POOR'' \<and>
           (links = [] \<longrightarrow> total_score (overall_score r) = 0)"
proof -
  let ?kvs' = "(ascii ''content'', JObj ((ascii ''body'', JStr []) # c)) # kvs"
  have doc: "document ?kvs' ((ascii ''body'', JStr []) # c) [] links"
    using assms by (simp add: document_def ascii_keys_distinct)
  from document_returns [OF doc] obtain r where r: "mock_evaluate_content clk (JObj ?kvs') = Inr r"
    by blast
  have e1: "content_length_of (JObj kvs) = content_length_of (JObj ?kvs')"
    using assms by (simp add: content_length_of_def dict_get_def py_len_def)
  have e2: "asp_links_count_of (JObj kvs) = asp_links_count_of (JObj ?kvs')"
    by (simp add: asp_links_count_of_def dict_get_def ascii_keys_distinct)
  have e3: "link_validation_results_of (JObj kvs) = link_validation_results_of (JObj ?kvs')"
    by (simp add: link_validation_results_of_def dict_get_def ascii_keys_distinct)
  have same: "mock_evaluate_content clk (JObj kvs) = mock_evaluate_content clk (JObj ?kvs')"
    unfolding mock_evaluate_content_def e1 e2 e3 by (rule refl)
  from report_fields [OF r] have
    f: "content_length (metadata r) = 0"
       "total_score (overall_score r) = base_score 0 + link_score (int (length links))"
       "grade (overall_score r) = determine_grade (base_score 0 + link_score (int (length links)))"
    by (simp_all add: document_content_length [OF doc] document_asp_links_count [OF doc])
  have t: "base_score 0 + link_score (int (length links)) = min 20 (int (length links) * 5)"
    by (simp add: base_score_def link_score_def)
  have "determine_grade (min 20 (int (length links) * 5)) = ascii ''POOR''"
    by (simp add: determine_grade_def)
  with f t same r show ?thesis by auto
qed

theorem missing_body_scores_as_empty_witness:
  "map_of bodyless_document (ascii ''content'') = Some (JObj bodyless_content) \<and>
   map_of bodyless_content (ascii ''body'') = None \<and>
   map_of bodyless_document (ascii ''asp_links'') = Some (JArr []) \<and>
   list_all has_url [] \<and>
   (\<exists>r. mock_evaluate_content clock0 (JObj bodyless_document) = Inr r \<and>
      content_length (metadata r) = 0 \<and>
      total_score (overall_score r) = 0 \<and>
      grade (overall_score r) = ascii ''POOR'')"
proof -
  have h: "map_of bodyless_document (ascii ''content'') = Some (JObj bodyless_content)"
    "map_of bodyless_content (ascii ''body'') = None"
    "map_of bodyless_document (ascii ''asp_links'') = Some (JArr [])"
    "list_all has_url []"
    by (simp_all add: sample_defs ascii_def)
  from missing_body_scores_as_empty [OF h, of clock0] h show ?thesis
    by auto
qed

text \<open>
  C8. Of two input documents with the same number of links, the one with the strictly
  longer body gets a total at least as large as the other's.
\<close>

theorem longer_body_scores_no_lower:
  assumes "document kvs1 c1 body1 links1" and "document kvs2 c2 body2 links2"
    and "length links1 = length links2" and "length body1 < length body2"
  shows "\<exists>r1 r2. mock_evaluate_content clk1 (JObj kvs1) = Inr r1 \<and>
           mock_evaluate_content clk2 (JObj kvs2) = Inr r2 \<and>
           total_score (overall_score r1) \<le> total_score (overall_score r2)"
proof -
  from document_returns [OF assms(1)] obtain r1 where
    r1: "mock_evaluate_content clk1 (JObj kvs1) = Inr r1" by blast
  from document_returns [OF assms(2)] obtain r2 where
    r2: "mock_evaluate_content clk2 (JObj kvs2) = Inr r2" by blast
  from report_fields [OF r1] have
    t1: "total_score (overall_score r1) = base_score (int (length body1)) + link_score (int (length links1))"
    by (simp add: document_content_length [OF assms(1)] document_asp_links_count [OF assms(1)])
  from report_fields [OF r2] have
    t2: "total_score (overall_score r2) = base_score (int (length body2)) + link_score (int (length links2))"
    by (simp add: document_content_length [OF assms(2)] document_asp_links_count [OF assms(2)])
  have "int (length body1) div 20 \<le> int (length body2) div 20"
    using assms(4) by (intro zdiv_mono1) simp_all
  then have "base_score (int (length body1)) \<le> base_score (int (length body2))"
    by (simp add: base_score_def)
  with t1 t2 assms(3) have "total_score (overall_score r1) \<le> total_score (overall_score r2)"
    by simp
  with r1 r2 show ?thesis by blast
qed

theorem longer_body_scores_no_lower_witness:
  "document short_document short_content (ascii ''Short content'') sample_links \<and>
   document sample_document sample_content (replicate 2000 120) sample_links \<and>
   length sample_links = length sample_links \<and>
   length (ascii ''Short content'') < length (replicate 2000 (120::nat)) \<and>
   (\<exists>r1 r2. mock_evaluate_content clock0 (JObj short_document) = Inr r1 \<and>
      mock_evaluate_content clock0 (JObj sample_document) = Inr r2 \<and>
      total_score (overall_score r1) \<le> total_score (overall_score r2))"
proof -
  have l: "length (ascii ''Short content'') < length (replicate 2000 (120::nat))"
    by (simp add: ascii_def)
  from longer_body_scores_no_lower [OF short_is_document sample_is_document refl l,
      of clock0 clock0]
    short_is_document sample_is_document l
  show ?thesis by simp
qed

text \<open>
  C9. For every input document the eight detailed scores are
  \<open>seo_optimization = min(15, total // 8)\<close>, \<open>content_quality = min(20, content_length // 50)\<close>,
  \<open>affiliate_integration = min(20, link_count * 4)\<close>, \<open>link_validity = min(15, link_count * 3)\<close>,
  \<open>user_value = min(20, content_length // 40)\<close>, \<open>compliance = 8\<close>,
  \<open>conversion_potential = min(15, link_count * 3)\<close> and \<open>technical_quality = 4\<close>, each
  between 0 and its cap.
\<close>

theorem detailed_scores_formulas:
  assumes "document kvs c body links"
  shows "\<exists>r. mock_evaluate_content clk (JObj kvs) = Inr r \<and>
           detailed_scores r =
             \<lparr>seo_optimization = min 15 (total_score (overall_score r) div 8),
              content_quality = min 20 (int (length body) div 50),
              affiliate_integration = min 20 (int (length links) * 4),
              link_validity = min 15 (int (length links) * 3),
              user_value = min 20 (int (length body) div 40),
              compliance = 8,
              conversion_potential = min 15 (int (length links) * 3),
              technical_quality = 4\<rparr> \<and>
           seo_optimization (detailed_scores r) \<in> {0..15} \<and>
           content_quality (detailed_scores r) \<in> {0..20} \<and>
           affiliate_integration (detailed_scores r) \<in> {0..20} \<and>
           link_validity (detailed_scores r) \<in> {0..15} \<and>
           user_value (detailed_scores r) \<in> {0..20} \<and>
           conversion_potential (detailed_scores r) \<in> {0..15}"
proof -
  from document_returns [OF assms] obtain r where r: "mock_evaluate_content clk (JObj kvs) = Inr r"
    by blast
  from report_fields [OF r] have
    d: "detailed_scores r =
             \<lparr>seo_optimization = min 15 (total_score (overall_score r) div 8),
              content_quality = min 20 (int (length body) div 50),
              affiliate_integration = min 20 (int (length links) * 4),
              link_validity = min 15 (int (length links) * 3),
              user_value = min 20 (int (length body) div 40),
              compliance = 8,
              conversion_potential = min 15 (int (length links) * 3),
              technical_quality = 4\<rparr>"
    by (simp add: document_content_length [OF assms] document_asp_links_count [OF assms])
  have "0 \<le> total_score (overall_score r) div 8"
    using report_total_bounds(1) [OF r] by simp
  moreover have "0 \<le> int (length body) div 50" "0 \<le> int (length body) div 40" by simp_all
  ultimately have "seo_optimization (detailed_scores r) \<in> {0..15}"
    "content_quality (detailed_scores r) \<in> {0..20}"
    "affiliate_integration (detailed_scores r) \<in> {0..20}"
    "link_validity (detailed_scores r) \<in> {0..15}"
    "user_value (detailed_scores r) \<in> {0..20}"
    "conversion_potential (detailed_scores r) \<in> {0..15}"
    by (simp_all add: d)
  with r d show ?thesis by blast
qed

theorem detailed_scores_formulas_witness:
  "document sample_document sample_content (replicate 2000 120) sample_links \<and>
   (\<exists>r. mock_evaluate_content clock0 (JObj sample_document) = Inr r \<and>
      detailed_scores r =
        \<lparr>seo_optimization = min 15 (total_score (overall_score r) div 8),
         content_quality = 20, affiliate_integration = 4, link_validity = 3,
         user_value = 20, compliance = 8, conversion_potential = 3,
         technical_quality = 4\<rparr>)"
  using detailed_scores_formulas [OF sample_is_document, of clock0] sample_is_document
  by (auto simp: sample_links_def)

text \<open>
  C10, amended. For every JSON object in which \<open>content\<close>, when present, is an object whose
  \<open>body\<close>, when present, is a string, and in which \<open>asp_links\<close>, when present, is an array
  of objects that each have a \<open>url\<close>, the engine returns a report. A missing \<open>content\<close> is
  read as the empty object and gives \<open>content_length = 0\<close>; a missing \<open>asp_links\<close> is read
  as the empty array and gives a link score of 0 (the total is the content score) and no
  \<open>link_validation_results\<close>.
\<close>

theorem missing_keys_default:
  assumes "content_or_absent kvs" and "asp_links_or_absent kvs"
  shows "\<exists>r. mock_evaluate_content clk (JObj kvs) = Inr r \<and>
           (map_of kvs (ascii ''content'') = None \<longrightarrow>
              content_length (metadata r) = 0 \<and>
              mock_evaluate_content clk (JObj ((ascii ''content'', JObj []) # kvs)) = Inr r) \<and>
           (map_of kvs (ascii ''asp_links'') = None \<longrightarrow>
              link_validation_results r = [] \<and>
              total_score (overall_score r) = min 80 (content_length (metadata r) div 20) \<and>
              mock_evaluate_content clk (JObj ((ascii ''asp_links'', JArr []) # kvs)) = Inr r)"
proof -
  from content_or_absent_length [OF assms(1)] obtain n where
    n: "content_length_of (JObj kvs) = Inr n"
       "map_of kvs (ascii ''content'') = None \<longrightarrow> n = 0"
       "map_of kvs (ascii ''content'') = None \<longrightarrow>
          content_length_of (JObj ((ascii ''content'', JObj []) # kvs)) = Inr n"
    by auto
  from asp_links_or_absent_count [OF assms(2)] obtain m where
    m: "asp_links_count_of (JObj kvs) = Inr m"
       "map_of kvs (ascii ''asp_links'') = None \<longrightarrow> m = 0"
       "map_of kvs (ascii ''asp_links'') = None \<longrightarrow>
          asp_links_count_of (JObj ((ascii ''asp_links'', JArr []) # kvs)) = Inr m"
    by auto
  from asp_links_or_absent_results [OF assms(2)] obtain es where
    es: "link_validation_results_of (JObj kvs) = Inr es"
        "map_of kvs (ascii ''asp_links'') = None \<longrightarrow> es = []"
        "map_of kvs (ascii ''asp_links'') = None \<longrightarrow>
           link_validation_results_of (JObj ((ascii ''asp_links'', JArr []) # kvs)) = Inr es"
    by auto
  obtain r where r: "mock_evaluate_content clk (JObj kvs) = Inr r"
    using n(1) m(1) es(1) by (simp add: mock_evaluate_content_def Let_def)
  from report_fields [OF r] n(1) m(1) es(1) have
    f: "content_length (metadata r) = n" "link_validation_results r = es"
       "total_score (overall_score r) = base_score n + link_score m"
    by auto
  have c: "content_length (metadata r) = 0 \<and>
           mock_evaluate_content clk (JObj ((ascii ''content'', JObj []) # kvs)) = Inr r"
    if h: "map_of kvs (ascii ''content'') = None"
  proof -
    have "asp_links_count_of (JObj ((ascii ''content'', JObj []) # kvs)) = asp_links_count_of (JObj kvs)"
      by (simp add: asp_links_count_of_def dict_get_def ascii_keys_distinct)
    moreover have "link_validation_results_of (JObj ((ascii ''content'', JObj []) # kvs)) =
        link_validation_results_of (JObj kvs)"
      by (simp add: link_validation_results_of_def dict_get_def ascii_keys_distinct)
    moreover note n(3) [rule_format, OF h] n(1)
    ultimately have "mock_evaluate_content clk (JObj ((ascii ''content'', JObj []) # kvs)) =
        mock_evaluate_content clk (JObj kvs)"
      unfolding mock_evaluate_content_def by (simp only:)
    with r f(1) n(2) [rule_format, OF h] show ?thesis by simp
  qed
  have l: "link_validation_results r = [] \<and>
           total_score (overall_score r) = min 80 (content_length (metadata r) div 20) \<and>
           mock_evaluate_content clk (JObj ((ascii ''asp_links'', JArr []) # kvs)) = Inr r"
    if h: "map_of kvs (ascii ''asp_links'') = None"
  proof -
    have "content_length_of (JObj ((ascii ''asp_links'', JArr []) # kvs)) = content_length_of (JObj kvs)"
      by (simp add: content_length_of_def dict_get_def ascii_keys_distinct)
    moreover note m(3) [rule_format, OF h] m(1) es(3) [rule_format, OF h] es(1)
    ultimately have "mock_evaluate_content clk (JObj ((ascii ''asp_links'', JArr []) # kvs)) =
        mock_evaluate_content clk (JObj kvs)"
      unfolding mock_evaluate_content_def by (simp only:)
    with r f m(2) [rule_format, OF h] es(2) [rule_format, OF h] show ?thesis
      by (simp add: base_score_def link_score_def)
  qed
  from r c l show ?thesis by auto
qed

theorem missing_keys_default_witness:
  "content_or_absent [] \<and> asp_links_or_absent [] \<and>
   (\<exists>r. mock_evaluate_content clock0 (JObj []) = Inr r \<and>
      content_length (metadata r) = 0 \<and>
      link_validation_results r = [] \<and>
      total_score (overall_score r) = 0)"
proof -
  have h: "content_or_absent []" "asp_links_or_absent []"
    by (simp_all add: content_or_absent_def asp_links_or_absent_def)
  from missing_keys_default [OF h, of clock0] h show ?thesis
    by auto
qed

text \<open>
  C10 as stated covers every JSON object. An object without \<open>content\<close> whose single link
  has no \<open>url\<close> makes the engine raise \<open>KeyError\<close>.
\<close>

theorem missing_url_raises:
  "mock_evaluate_content clock0 (JObj urlless_document) = Inl (KeyError (ascii ''url''))"
  by (simp add: engine_defs sample_defs ascii_def)

end
